theory Spec2Isabelle
  imports Main
begin

section \<open>The ChatKit bootstrap script (app/static/chatkit.js)\<close>

text \<open>
  The script is one closure: it reads its configuration, looks up five page elements,
  and defines \<open>showError\<close>, \<open>hideError\<close>, \<open>toggleTheme\<close>, \<open>initializeTheme\<close>,
  \<open>updateChatkitTheme\<close>, \<open>createSession\<close> and \<open>initChatKit\<close>. The model passes the
  page state explicitly. What the browser and the backend decide is an environment
  record: whether the custom element is registered at a given moment, what each
  \<open>fetch\<close> yields, and the texts of the exceptions the engine itself raises.
  Console output is not modelled.
\<close>

subsection \<open>JSON values as the script sees them\<close>

text \<open>
  A value produced by \<open>response.json()\<close>. A number is kept as the text that the
  engine's number-to-string conversion gives for it (\<open>0\<close> and \<open>-0\<close> both give \<open>0\<close>),
  which is all the script can observe of it. An object is the list of its own
  properties in source order.
\<close>

datatype json =
    JNull
  | JBool bool
  | JNum string
  | JStr string
  | JArr "json list"
  | JObj "(string \<times> json) list"

datatype exn =
    Error string
  | TypeError string
  | SyntaxError string

fun message :: "exn \<Rightarrow> string" where
  "message (Error m) = m"
| "message (TypeError m) = m"
| "message (SyntaxError m) = m"

text \<open>
  \<open>get_field v k\<close> is \<open>v.k\<close> for a non-null \<open>v\<close> and a key that no built-in prototype
  defines (the script reads \<open>error\<close>, \<open>id\<close> and \<open>client_secret\<close>); \<open>None\<close> is
  \<open>undefined\<close>. When a key is repeated in the source text the last binding wins, as in
  \<open>JSON.parse\<close>.
\<close>

fun get_field :: "json \<Rightarrow> string \<Rightarrow> json option" where
  "get_field (JObj kvs) k = map_of (rev kvs) k"
| "get_field _ k = None"

fun truthy :: "json \<Rightarrow> bool" where
  "truthy JNull = False"
| "truthy (JBool b) = b"
| "truthy (JNum r) = (r \<noteq> ''0'')"
| "truthy (JStr s) = (s \<noteq> [])"
| "truthy (JArr xs) = True"
| "truthy (JObj kvs) = True"

fun join_with :: "string \<Rightarrow> string list \<Rightarrow> string" where
  "join_with sep [] = []"
| "join_with sep [x] = x"
| "join_with sep (x # y # ys) = x @ sep @ join_with sep (y # ys)"

text \<open>
  The conversion to a string that \<open>new Error(v)\<close> applies to its argument. An array
  joins its elements with commas, \<open>null\<close> elements giving the empty string. A parsed
  object has no callable property, so an own \<open>toString\<close> key makes the conversion
  raise a TypeError, whose text \<open>tp\<close> is the engine's.
\<close>

fun ToString :: "string \<Rightarrow> json \<Rightarrow> exn + string"
  and ToStrings :: "string \<Rightarrow> json list \<Rightarrow> exn + string list" where
  "ToString tp JNull = Inr ''null''"
| "ToString tp (JBool b) = Inr (if b then ''true'' else ''false'')"
| "ToString tp (JNum r) = Inr r"
| "ToString tp (JStr s) = Inr s"
| "ToString tp (JArr xs) =
     (case ToStrings tp xs of Inl e \<Rightarrow> Inl e | Inr ss \<Rightarrow> Inr (join_with '','' ss))"
| "ToString tp (JObj kvs) =
     (if ''toString'' \<in> fst ` set kvs then Inl (TypeError tp) else Inr ''[object Object]'')"
| "ToStrings tp [] = Inr []"
| "ToStrings tp (x # xs) =
     (case (if x = JNull then Inr [] else ToString tp x) of
        Inl e \<Rightarrow> Inl e
      | Inr s \<Rightarrow> (case ToStrings tp xs of Inl e \<Rightarrow> Inl e | Inr ss \<Rightarrow> Inr (s # ss)))"

subsection \<open>Decimal rendering of the HTTP status\<close>

definition digit_char :: "nat \<Rightarrow> char" where
  "digit_char d = ''0123456789'' ! (d mod 10)"

fun show_nat :: "nat \<Rightarrow> string" where
  "show_nat n = (if n < 10 then [digit_char n] else show_nat (n div 10) @ [digit_char (n mod 10)])"

declare show_nat.simps [simp del]

subsection \<open>Configuration\<close>

record config =
  workflowId :: string
  sessionEndpoint :: string
  placeholder :: string
  greeting :: string

text \<open>
  \<open>document.currentScript?.dataset.x || d\<close>: the default \<open>d\<close> is taken when there is no
  current script, when the attribute is missing and when it is the empty string.
\<close>

definition or_default :: "(string \<rightharpoonup> string) option \<Rightarrow> string \<Rightarrow> string \<Rightarrow> string" where
  "or_default script k d =
     (case script of
        None \<Rightarrow> d
      | Some dataset \<Rightarrow> (case dataset k of None \<Rightarrow> d | Some v \<Rightarrow> if v = [] then d else v))"

definition CONFIG :: "(string \<rightharpoonup> string) option \<Rightarrow> config" where
  "CONFIG script =
     \<lparr> workflowId = or_default script ''workflowId'' [],
       sessionEndpoint = or_default script ''sessionEndpoint'' ''/api/create-session'',
       placeholder = or_default script ''placeholder'' ''Ask anything...'',
       greeting = or_default script ''greeting'' ''How can I help you today?'' \<rparr>"

subsection \<open>The network\<close>

record request =
  url :: string
  http_method :: string
  headers :: "(string \<times> string) list"
  credentials :: string
  body_json :: json

text \<open>
  \<open>body_json\<close> is the value handed to \<open>JSON.stringify\<close>; the text on the wire is its
  serialisation.
\<close>

datatype body = Unparseable string | Parsed json

record response =
  status :: nat
  body :: body

definition ok :: "response \<Rightarrow> bool" where
  "ok r = (200 \<le> status r \<and> status r \<le> 299)"

datatype fetch_outcome = NetworkError string | Response response

subsection \<open>Environment and page state\<close>

record env =
  defined_at :: "nat \<Rightarrow> bool"
  fetch_result :: "nat \<Rightarrow> fetch_outcome"
  prefers_dark :: bool
  null_read_msg :: "string \<Rightarrow> string"
  to_primitive_msg :: string

text \<open>
  \<open>defined_at env t\<close>: \<open>customElements.get('openai-chatkit')\<close> is truthy when the timers
  awaited so far add up to \<open>t\<close>. \<open>fetch_result env k\<close>: what the \<open>k\<close>-th request of the
  page (counting from 0) settles to; every request is assumed to settle.
  \<open>null_read_msg env p\<close> is the text of the TypeError for reading property \<open>p\<close> of
  \<open>null\<close>, \<open>to_primitive_msg env\<close> that of a failed conversion to a primitive.
\<close>

record chatkit =
  sessionToken :: "json option"
  placeholder_text :: string
  greetingText :: string
  theme :: "string option"

datatype node = Widget nat | Other string

datatype handler = InitChatKit | PageHandler

record button =
  display :: string
  onclick :: "handler option"

text \<open>
  The five elements looked up by id are \<open>None\<close> when the page has no such element.
  The container is known by its child list, the overlay by its \<open>style.display\<close>, the
  message holder by its \<open>textContent\<close>, the theme toggle by whether \<open>toggleTheme\<close>
  listens to its clicks. Widget elements live in \<open>heap\<close> and are referred to by
  index, since \<open>chatkitElement\<close> and the container share the mounted element.
  \<open>dark\<close> says whether the root element's class list holds \<open>dark\<close>.
\<close>

record state =
  clock :: nat
  requests :: "request list"
  heap :: "chatkit list"
  chatkitElement :: "nat option"
  chatkitContainer :: "node list option"
  errorOverlay :: "string option"
  errorMessage :: "string option"
  retryButton :: "button option"
  themeToggle :: "bool option"
  dark :: bool
  localStorage :: "string \<rightharpoonup> string"

subsection \<open>Error overlay\<close>

definition showError :: "string \<Rightarrow> bool \<Rightarrow> state \<Rightarrow> state" where
  "showError msg retryable s =
     (let s1 = (case errorMessage s of None \<Rightarrow> s | Some _ \<Rightarrow> s\<lparr>errorMessage := Some msg\<rparr>);
          s2 = (case errorOverlay s1 of None \<Rightarrow> s1 | Some _ \<Rightarrow> s1\<lparr>errorOverlay := Some ''flex''\<rparr>)
      in (case retryButton s2 of
            None \<Rightarrow> s2
          | Some b \<Rightarrow> if \<not> retryable then s2\<lparr>retryButton := Some (b\<lparr>display := ''none''\<rparr>)\<rparr> else s2))"

definition hideError :: "state \<Rightarrow> state" where
  "hideError s =
     (case errorOverlay s of None \<Rightarrow> s | Some _ \<Rightarrow> s\<lparr>errorOverlay := Some ''none''\<rparr>)"

subsection \<open>Theme\<close>

definition theme_name :: "bool \<Rightarrow> string" where
  "theme_name isDark = (if isDark then ''dark'' else ''light'')"

definition updateChatkitTheme :: "state \<Rightarrow> state" where
  "updateChatkitTheme s =
     (case chatkitElement s of
        None \<Rightarrow> s
      | Some r \<Rightarrow>
          if r < length (heap s)
          then s\<lparr>heap := (heap s)[r := (heap s ! r)\<lparr>theme := Some (theme_name (dark s))\<rparr>]\<rparr>
          else s)"

definition toggleTheme :: "state \<Rightarrow> state" where
  "toggleTheme s =
     (let isDark = \<not> dark s;
          s1 = s\<lparr>dark := isDark\<rparr>;
          s2 = s1\<lparr>localStorage := (localStorage s1)(''theme'' \<mapsto> theme_name isDark)\<rparr>
      in updateChatkitTheme s2)"


subsection \<open>Session creation\<close>

definition session_request :: "config \<Rightarrow> request" where
  "session_request cfg =
     \<lparr> url = sessionEndpoint cfg,
       http_method = ''POST'',
       headers = [(''Content-Type'', ''application/json'')],
       credentials = ''include'',
       body_json =
         JObj [(''workflow'', JObj [(''id'', JStr (workflowId cfg))]),
               (''chatkit_configuration'',
                  JObj [(''file_upload'', JObj [(''enabled'', JBool False)])])] \<rparr>"

text \<open>
  \<open>createSession\<close> returns the session or the exception it rethrows, with the state in
  which the request has been logged. Reading a property of \<open>null\<close> raises.
\<close>

definition createSession :: "config \<Rightarrow> env \<Rightarrow> state \<Rightarrow> (exn + json) \<times> state" where
  "createSession cfg e s =
     (let s1 = s\<lparr>requests := requests s @ [session_request cfg]\<rparr> in
      (case fetch_result e (length (requests s)) of
         NetworkError m \<Rightarrow> (Inl (TypeError m), s1)
       | Response r \<Rightarrow>
           if \<not> ok r then
             (case body r of
                Unparseable m \<Rightarrow> (Inl (SyntaxError m), s1)
              | Parsed err \<Rightarrow>
                  if err = JNull then (Inl (TypeError (null_read_msg e ''error'')), s1)
                  else
                    (case (case get_field err ''error'' of
                             None \<Rightarrow> Inr (''HTTP '' @ show_nat (status r) @ '': Failed to create session'')
                           | Some v \<Rightarrow>
                               if truthy v then ToString (to_primitive_msg e) v
                               else Inr (''HTTP '' @ show_nat (status r) @ '': Failed to create session'')) of
                       Inl x \<Rightarrow> (Inl x, s1)
                     | Inr m \<Rightarrow> (Inl (Error m), s1)))
           else
             (case body r of
                Unparseable m \<Rightarrow> (Inl (SyntaxError m), s1)
              | Parsed session \<Rightarrow>
                  if session = JNull then (Inl (TypeError (null_read_msg e ''id'')), s1)
                  else (Inr session, s1))))"

subsection \<open>Initialisation\<close>

definition maxAttempts :: nat where
  "maxAttempts = 50"

text \<open>
  The polling loop: \<open>t\<close> is the time awaited so far, each round awaits a timer of 100.
  The result is the time and the number of attempts at which the loop stops.
\<close>

function wait_for_component :: "env \<Rightarrow> nat \<Rightarrow> nat \<Rightarrow> nat \<times> nat" where
  "wait_for_component e t attempts =
     (if \<not> defined_at e t \<and> attempts < maxAttempts
      then wait_for_component e (t + 100) (attempts + 1)
      else (t, attempts))"
  by pat_completeness auto
termination
  by (relation "measure (\<lambda>(e, t, attempts). maxAttempts - attempts)") auto

declare wait_for_component.simps [simp del]

text \<open>
  The body of \<open>initChatKit\<close>, the \<open>catch\<close> block being the \<open>Inl\<close> branch. Creating
  the element and assigning \<open>sessionToken\<close>, \<open>placeholder\<close> and \<open>greetingText\<close> are
  updates of a new heap cell: the element class belongs to the widget's vendor, and its
  property setters are taken not to raise. The widget's \<open>placeholder\<close> property is the
  field \<open>placeholder_text\<close>.
\<close>

definition initChatKit :: "config \<Rightarrow> env \<Rightarrow> state \<Rightarrow> state" where
  "initChatKit cfg e s =
     (let (t, attempts) = wait_for_component e (clock s) 0;
          s1 = s\<lparr>clock := t\<rparr>
      in if \<not> defined_at e t
         then showError ''ChatKit component not loaded. Please refresh the page.'' True s1
         else
           (case createSession cfg e (hideError s1) of
              (Inl error, s2) \<Rightarrow>
                (let s3 = showError (''Failed to initialize ChatKit: '' @ message error) True s2
                 in (case retryButton s3 of
                       None \<Rightarrow> s3
                     | Some b \<Rightarrow> s3\<lparr>retryButton := Some (b\<lparr>onclick := Some InitChatKit\<rparr>)\<rparr>))
            | (Inr session, s2) \<Rightarrow>
                (let r = length (heap s2);
                     el = \<lparr> sessionToken = get_field session ''client_secret'',
                            placeholder_text = placeholder cfg,
                            greetingText = greeting cfg,
                            theme = None \<rparr>;
                     s3 = s2\<lparr>heap := heap s2 @ [el], chatkitElement := Some r\<rparr>;
                     s4 = updateChatkitTheme s3
                 in (case chatkitContainer s4 of
                       None \<Rightarrow> s4
                     | Some _ \<Rightarrow> s4\<lparr>chatkitContainer := Some [Widget r]\<rparr>))))"

subsection \<open>Page load and later events\<close>






text \<open>
  The widget references mounted in the container, in document order.
\<close>

subsection \<open>A concrete page\<close>

text \<open>
  An environment whose registration schedule and fetch outcome are given, with fixed
  engine texts, and a freshly loaded page with all five elements present, a
  placeholder child in the container and nothing stored.
\<close>

definition env_of :: "(nat \<Rightarrow> bool) \<Rightarrow> fetch_outcome \<Rightarrow> env" where
  "env_of reg out =
     \<lparr> defined_at = reg,
       fetch_result = (\<lambda>k. out),
       prefers_dark = False,
       null_read_msg = (\<lambda>p. ''null has no properties''),
       to_primitive_msg = ''cannot convert object to primitive value'' \<rparr>"

definition cfg0 :: config where
  "cfg0 = CONFIG None"

definition page0 :: state where
  "page0 =
     \<lparr> clock = 0,
       requests = [],
       heap = [],
       chatkitElement = None,
       chatkitContainer = Some [Other ''Loading''],
       errorOverlay = Some ''none'',
       errorMessage = Some [],
       retryButton = Some \<lparr> display = ''inline-block'', onclick = None \<rparr>,
       themeToggle = Some False,
       dark = False,
       localStorage = Map.empty \<rparr>"

section \<open>Frame lemmas\<close>

lemma showError_frame [simp]:
  "clock (showError m r s) = clock s"
  "requests (showError m r s) = requests s"
  "heap (showError m r s) = heap s"
  "chatkitElement (showError m r s) = chatkitElement s"
  "chatkitContainer (showError m r s) = chatkitContainer s"
  "themeToggle (showError m r s) = themeToggle s"
  "dark (showError m r s) = dark s"
  "localStorage (showError m r s) = localStorage s"
  by (simp_all add: showError_def Let_def split: option.split)

lemma showError_shown [simp]:
  "errorMessage (showError m r s) = map_option (\<lambda>_. m) (errorMessage s)"
  "errorOverlay (showError m r s) = map_option (\<lambda>_. ''flex'') (errorOverlay s)"
  by (auto simp add: showError_def Let_def split: option.split)

lemma showError_retryButton [simp]:
  "retryButton (showError m True s) = retryButton s"
  "retryButton (showError m False s) = map_option (\<lambda>b. b\<lparr>display := ''none''\<rparr>) (retryButton s)"
  by (simp_all add: showError_def Let_def split: option.split)

lemma hideError_frame [simp]:
  "clock (hideError s) = clock s"
  "requests (hideError s) = requests s"
  "heap (hideError s) = heap s"
  "chatkitElement (hideError s) = chatkitElement s"
  "chatkitContainer (hideError s) = chatkitContainer s"
  "errorMessage (hideError s) = errorMessage s"
  "retryButton (hideError s) = retryButton s"
  "themeToggle (hideError s) = themeToggle s"
  "dark (hideError s) = dark s"
  "localStorage (hideError s) = localStorage s"
  by (simp_all add: hideError_def split: option.split)

lemma updateChatkitTheme_frame [simp]:
  "clock (updateChatkitTheme s) = clock s"
  "requests (updateChatkitTheme s) = requests s"
  "length (heap (updateChatkitTheme s)) = length (heap s)"
  "chatkitElement (updateChatkitTheme s) = chatkitElement s"
  "chatkitContainer (updateChatkitTheme s) = chatkitContainer s"
  "errorOverlay (updateChatkitTheme s) = errorOverlay s"
  "errorMessage (updateChatkitTheme s) = errorMessage s"
  "retryButton (updateChatkitTheme s) = retryButton s"
  "themeToggle (updateChatkitTheme s) = themeToggle s"
  "dark (updateChatkitTheme s) = dark s"
  "localStorage (updateChatkitTheme s) = localStorage s"
  by (simp_all add: updateChatkitTheme_def split: option.split)

lemma createSession_state:
  "snd (createSession cfg e s) = s\<lparr>requests := requests s @ [session_request cfg]\<rparr>"
  by (simp add: createSession_def Let_def split: fetch_outcome.split body.split sum.split option.split)

lemma createSession_result_cong:
  "requests s = requests s' \<Longrightarrow> fst (createSession cfg e s) = fst (createSession cfg e s')"
  by (simp add: createSession_def Let_def split: fetch_outcome.split body.split sum.split option.split)

lemma wait_for_component_spec:
  "attempts \<le> maxAttempts \<Longrightarrow> wait_for_component e t attempts = (t', n') \<Longrightarrow>
     attempts \<le> n' \<and> n' \<le> maxAttempts \<and> t' = t + 100 * (n' - attempts) \<and>
     (\<forall>k < n' - attempts. \<not> defined_at e (t + 100 * k)) \<and>
     (n' < maxAttempts \<longrightarrow> defined_at e t')"
proof (induction e t attempts rule: wait_for_component.induct)
  case (1 e t attempts)
  show ?case
  proof (cases "\<not> defined_at e t \<and> attempts < maxAttempts")
    case True
    then have rec: "wait_for_component e (t + 100) (attempts + 1) = (t', n')"
      using "1.prems"(2) by (simp add: wait_for_component.simps [of e t attempts])
    from True have "attempts + 1 \<le> maxAttempts" by simp
    from "1.IH" [OF True this rec]
    have ih: "attempts + 1 \<le> n'" "n' \<le> maxAttempts" "t' = t + 100 + 100 * (n' - (attempts + 1))"
      "\<forall>k < n' - (attempts + 1). \<not> defined_at e (t + 100 + 100 * k)"
      "n' < maxAttempts \<longrightarrow> defined_at e t'"
      by auto
    have "\<not> defined_at e (t + 100 * k)" if "k < n' - attempts" for k
    proof (cases k)
      case 0
      with True show ?thesis by simp
    next
      case (Suc j)
      with that have "j < n' - (attempts + 1)" by simp
      with ih(4) have "\<not> defined_at e (t + 100 + 100 * j)" by blast
      with Suc show ?thesis by (simp add: add.assoc)
    qed
    moreover have "t' = t + 100 * (n' - attempts)"
      using ih(1,3) by (simp add: algebra_simps) 
    ultimately show ?thesis using ih by auto
  next
    case False
    then have "wait_for_component e t attempts = (t, attempts)"
      by (subst wait_for_component.simps) auto
    with "1.prems" show ?thesis using False by auto
  qed
qed

section \<open>The polling loop and the three ways out of initChatKit\<close>

lemma wait_for_component_from_zero:
  "wait_for_component e t 0 = (t', n) \<Longrightarrow>
     n \<le> maxAttempts \<and> t' = t + 100 * n \<and>
     (\<forall>k < n. \<not> defined_at e (t + 100 * k)) \<and> (n < maxAttempts \<longrightarrow> defined_at e t')"
  using wait_for_component_spec [of 0 e t t' n] by auto

lemma registered_at_exit:
  assumes "k \<le> maxAttempts" and "defined_at e (t + 100 * k)"
  shows "defined_at e (fst (wait_for_component e t 0))"
proof -
  obtain t' n where w: "wait_for_component e t 0 = (t', n)"
    by (cases "wait_for_component e t 0")
  note spec = wait_for_component_from_zero [OF w]
  show ?thesis
  proof (cases "n < maxAttempts")
    case True
    with spec w show ?thesis by auto
  next
    case False
    with spec have n: "n = maxAttempts" by simp
    with spec assms have "\<not> k < n" by blast
    with n assms have "k = n" by simp
    with spec assms w show ?thesis by simp
  qed
qed

lemma never_registered_exit:
  assumes "\<forall>k \<le> maxAttempts. \<not> defined_at e (t + 100 * k)"
  shows "wait_for_component e t 0 = (t + 100 * maxAttempts, maxAttempts)"
proof -
  obtain t' n where w: "wait_for_component e t 0 = (t', n)"
    by (cases "wait_for_component e t 0")
  note spec = wait_for_component_from_zero [OF w]
  have "n = maxAttempts"
  proof (rule ccontr)
    assume "n \<noteq> maxAttempts"
    with spec have "n < maxAttempts" "defined_at e (t + 100 * n)" by auto
    with assms show False by auto
  qed
  with spec w show ?thesis by simp
qed

lemma initChatKit_timeout:
  assumes "\<forall>k \<le> maxAttempts. \<not> defined_at e (clock s + 100 * k)"
  shows "initChatKit cfg e s =
         showError ''ChatKit component not loaded. Please refresh the page.'' True
           (s\<lparr>clock := clock s + 100 * maxAttempts\<rparr>)"
proof -
  have "\<not> defined_at e (clock s + 100 * maxAttempts)" using assms by blast
  then show ?thesis
    by (simp add: initChatKit_def never_registered_exit [OF assms])
qed

lemma initChatKit_registered:
  assumes "defined_at e (fst (wait_for_component e (clock s) 0))"
  shows "initChatKit cfg e s =
     (let s1 = s\<lparr>clock := fst (wait_for_component e (clock s) 0)\<rparr> in
      case createSession cfg e (hideError s1) of
              (Inl error, s2) \<Rightarrow>
                (let s3 = showError (''Failed to initialize ChatKit: '' @ message error) True s2
                 in (case retryButton s3 of
                       None \<Rightarrow> s3
                     | Some b \<Rightarrow> s3\<lparr>retryButton := Some (b\<lparr>onclick := Some InitChatKit\<rparr>)\<rparr>))
            | (Inr session, s2) \<Rightarrow>
                (let r = length (heap s2);
                     el = \<lparr> sessionToken = get_field session ''client_secret'',
                            placeholder_text = placeholder cfg,
                            greetingText = greeting cfg,
                            theme = None \<rparr>;
                     s3 = s2\<lparr>heap := heap s2 @ [el], chatkitElement := Some r\<rparr>;
                     s4 = updateChatkitTheme s3
                 in (case chatkitContainer s4 of
                       None \<Rightarrow> s4
                     | Some _ \<Rightarrow> s4\<lparr>chatkitContainer := Some [Widget r]\<rparr>)))"
  using assms by (auto simp add: initChatKit_def Let_def split: prod.split)

lemma createSession_at_poll:
  "createSession cfg e (hideError (s\<lparr>clock := t\<rparr>)) =
   (fst (createSession cfg e s), hideError (s\<lparr>clock := t, requests := requests s @ [session_request cfg]\<rparr>))"
proof -
  have "fst (createSession cfg e (hideError (s\<lparr>clock := t\<rparr>))) = fst (createSession cfg e s)"
    by (rule createSession_result_cong) simp
  moreover have "snd (createSession cfg e (hideError (s\<lparr>clock := t\<rparr>))) =
    hideError (s\<lparr>clock := t, requests := requests s @ [session_request cfg]\<rparr>)"
    by (simp add: createSession_state hideError_def split: option.split)
  ultimately show ?thesis by (metis prod.collapse)
qed

lemma initChatKit_session_failed:
  assumes "defined_at e (fst (wait_for_component e (clock s) 0))"
    and "fst (createSession cfg e s) = Inl err"
  shows "initChatKit cfg e s =
     (let s2 = hideError (s\<lparr>clock := fst (wait_for_component e (clock s) 0),
                            requests := requests s @ [session_request cfg]\<rparr>);
          s3 = showError (''Failed to initialize ChatKit: '' @ message err) True s2
      in (case retryButton s3 of
            None \<Rightarrow> s3
          | Some b \<Rightarrow> s3\<lparr>retryButton := Some (b\<lparr>onclick := Some InitChatKit\<rparr>)\<rparr>))"
  using assms(2) by (simp add: initChatKit_registered [OF assms(1)] createSession_at_poll Let_def)

lemma initChatKit_session_created:
  assumes "defined_at e (fst (wait_for_component e (clock s) 0))"
    and "fst (createSession cfg e s) = Inr session"
  shows "initChatKit cfg e s =
     (let s2 = hideError (s\<lparr>clock := fst (wait_for_component e (clock s) 0),
                            requests := requests s @ [session_request cfg]\<rparr>);
          r = length (heap s2);
          el = \<lparr> sessionToken = get_field session ''client_secret'',
                 placeholder_text = placeholder cfg,
                 greetingText = greeting cfg,
                 theme = None \<rparr>;
          s3 = s2\<lparr>heap := heap s2 @ [el], chatkitElement := Some r\<rparr>;
          s4 = updateChatkitTheme s3
      in (case chatkitContainer s4 of
            None \<Rightarrow> s4
          | Some _ \<Rightarrow> s4\<lparr>chatkitContainer := Some [Widget r]\<rparr>))"
  using assms(2) by (simp add: initChatKit_registered [OF assms(1)] createSession_at_poll Let_def)

lemma initChatKit_not_registered:
  assumes "\<not> defined_at e (fst (wait_for_component e (clock s) 0))"
  shows "initChatKit cfg e s =
         showError ''ChatKit component not loaded. Please refresh the page.'' True
           (s\<lparr>clock := fst (wait_for_component e (clock s) 0)\<rparr>)"
  using assms by (auto simp add: initChatKit_def Let_def split: prod.split)

section \<open>Theme toggle\<close>

lemma toggleTheme_dark: "dark (toggleTheme s) = (\<not> dark s)"
  by (simp add: toggleTheme_def Let_def)

lemma toggleTheme_storage:
  "localStorage (toggleTheme s) = (localStorage s)(''theme'' \<mapsto> theme_name (\<not> dark s))"
  by (simp add: toggleTheme_def Let_def)

text \<open>
  C10. After \<open>toggleTheme\<close> the stored preference agrees with the document flag,
  whatever the two were before: the value under \<open>theme\<close> is \<open>dark\<close> exactly when
  the flag is set, and \<open>light\<close> exactly when it is not.
\<close>

theorem toggleTheme_stored_matches_flag:
  "(localStorage (toggleTheme s) ''theme'' = Some ''dark'') = dark (toggleTheme s) \<and>
   (localStorage (toggleTheme s) ''theme'' = Some ''light'') = (\<not> dark (toggleTheme s))"
  by (simp add: toggleTheme_dark toggleTheme_storage theme_name_def)

text \<open>
  C7, as stated, fails on a page with nothing stored: two toggles bring the flag back
  but leave \<open>light\<close> in the store, where there was no entry.
\<close>

theorem toggleTheme_twice_counterexample:
  "dark (toggleTheme (toggleTheme page0)) = dark page0 \<and>
   localStorage page0 ''theme'' = None \<and>
   localStorage (toggleTheme (toggleTheme page0)) ''theme'' = Some ''light''"
  by (simp add: toggleTheme_dark toggleTheme_storage theme_name_def page0_def)

text \<open>
  C7, amended. Two toggles return the document flag to its original value and leave
  every stored key other than \<open>theme\<close> alone; the stored theme is then \<open>dark\<close> or
  \<open>light\<close> according to that flag, so the store as a whole is back to what it was
  whenever the stored theme agreed with the flag to begin with (as it does after any
  earlier toggle). The flag is unchanged by any even number of toggles.
\<close>

theorem toggleTheme_twice:
  "dark (toggleTheme (toggleTheme s)) = dark s \<and>
   localStorage (toggleTheme (toggleTheme s)) =
     (localStorage s)(''theme'' \<mapsto> (if dark s then ''dark'' else ''light'')) \<and>
   (localStorage s ''theme'' = Some (if dark s then ''dark'' else ''light'') \<longrightarrow>
      localStorage (toggleTheme (toggleTheme s)) = localStorage s) \<and>
   dark ((toggleTheme ^^ (2 * n)) s) = dark s"
proof -
  have flag: "dark (toggleTheme (toggleTheme s)) = dark s" for s
    by (simp add: toggleTheme_dark)
  have store: "localStorage (toggleTheme (toggleTheme s)) =
     (localStorage s)(''theme'' \<mapsto> (if dark s then ''dark'' else ''light''))"
    by (simp add: toggleTheme_dark toggleTheme_storage theme_name_def)
  have same: "localStorage (toggleTheme (toggleTheme s)) = localStorage s"
    if "localStorage s ''theme'' = Some (if dark s then ''dark'' else ''light'')"
    using that unfolding store by (simp add: fun_upd_idem)
  have even: "dark ((toggleTheme ^^ (2 * n)) s) = dark s"
  proof (induction n)
    case 0
    show ?case by simp
  next
    case (Suc n)
    have "(toggleTheme ^^ (2 * Suc n)) s = toggleTheme (toggleTheme ((toggleTheme ^^ (2 * n)) s))"
      by simp
    with flag Suc show ?case by simp
  qed
  from flag store same even show ?thesis by blast
qed

theorem toggleTheme_stored_matches_flag_witness:
  "localStorage (toggleTheme page0) ''theme'' = Some ''dark'' \<and> dark (toggleTheme page0)"
  using toggleTheme_stored_matches_flag [of page0]
  by (simp add: toggleTheme_dark page0_def)

theorem toggleTheme_twice_witness:
  "localStorage (toggleTheme page0) ''theme'' = Some (if dark (toggleTheme page0) then ''dark'' else ''light'') \<and>
   dark (toggleTheme (toggleTheme (toggleTheme page0))) = dark (toggleTheme page0) \<and>
   localStorage (toggleTheme (toggleTheme (toggleTheme page0))) = localStorage (toggleTheme page0)"
  using toggleTheme_twice [of "toggleTheme page0" 1]
  by (simp add: toggleTheme_dark toggleTheme_storage theme_name_def page0_def)

section \<open>The session request\<close>

text \<open>
  C9. Each call of \<open>createSession\<close> issues exactly one request: a POST to the
  configured endpoint with the single header \<open>Content-Type: application/json\<close>,
  credentials included, whose body is the object
  \<open>{workflow: {id: workflowId}, chatkit_configuration: {file_upload: {enabled: false}}}\<close>.
  \<open>initChatKit\<close> issues either no request or that one.
\<close>

theorem createSession_request:
  "requests (snd (createSession cfg e s)) =
     requests s @
       [\<lparr> url = sessionEndpoint cfg,
          http_method = ''POST'',
          headers = [(''Content-Type'', ''application/json'')],
          credentials = ''include'',
          body_json =
            JObj [(''workflow'', JObj [(''id'', JStr (workflowId cfg))]),
                  (''chatkit_configuration'',
                     JObj [(''file_upload'', JObj [(''enabled'', JBool False)])])] \<rparr>] \<and>
   (requests (initChatKit cfg e s) = requests s \<or>
    requests (initChatKit cfg e s) = requests (snd (createSession cfg e s)))"
proof -
  have one: "requests (snd (createSession cfg e s)) = requests s @ [session_request cfg]"
    by (simp add: createSession_state)
  have "requests (initChatKit cfg e s) = requests s \<or>
        requests (initChatKit cfg e s) = requests s @ [session_request cfg]"
  proof (cases "defined_at e (fst (wait_for_component e (clock s) 0))")
    case False
    then show ?thesis
      by (simp add: initChatKit_not_registered)
  next
    case True
    show ?thesis
    proof (cases "fst (createSession cfg e s)")
      case (Inl err)
      show ?thesis
        by (simp add: initChatKit_session_failed [OF True Inl] Let_def split: option.split)
    next
      case (Inr session)
      show ?thesis
        by (simp add: initChatKit_session_created [OF True Inr] Let_def split: option.split)
    qed
  qed
  with one show ?thesis by (simp add: session_request_def)
qed

theorem createSession_request_witness:
  "requests (snd (createSession cfg0 (env_of (\<lambda>t. True) (NetworkError ''offline'')) page0)) =
     [\<lparr> url = ''/api/create-session'',
        http_method = ''POST'',
        headers = [(''Content-Type'', ''application/json'')],
        credentials = ''include'',
        body_json =
          JObj [(''workflow'', JObj [(''id'', JStr [])]),
                (''chatkit_configuration'',
                   JObj [(''file_upload'', JObj [(''enabled'', JBool False)])])] \<rparr>]"
  using createSession_request [of cfg0 "env_of (\<lambda>t. True) (NetworkError ''offline'')" page0]
  by (simp add: cfg0_def CONFIG_def or_default_def page0_def)

section \<open>Polling for the component\<close>

lemma initChatKit_clock:
  "clock (initChatKit cfg e s) = fst (wait_for_component e (clock s) 0)"
proof (cases "defined_at e (fst (wait_for_component e (clock s) 0))")
  case False
  then show ?thesis by (simp add: initChatKit_not_registered)
next
  case True
  show ?thesis
  proof (cases "fst (createSession cfg e s)")
    case (Inl err)
    show ?thesis
      by (simp add: initChatKit_session_failed [OF True Inl] Let_def split: option.split)
  next
    case (Inr session)
    show ?thesis
      by (simp add: initChatKit_session_created [OF True Inr] Let_def split: option.split)
  qed
qed

text \<open>
  C6. The polling loop of \<open>initChatKit\<close> terminates (the function is total, by the
  measure \<open>maxAttempts - attempts\<close>). Started at time \<open>clock s\<close> it stops after
  \<open>n \<le> 50\<close> waits of 100 each; the component was unregistered at every earlier check,
  and when the loop stops before the 50th wait the component is registered at that
  moment. \<open>initChatKit\<close> leaves the clock at the time the loop stopped.
\<close>

theorem polling_loop_bounded:
  "(case wait_for_component e (clock s) 0 of
      (t', n) \<Rightarrow>
        maxAttempts = 50 \<and> n \<le> 50 \<and> t' = clock s + 100 * n \<and> t' \<le> clock s + 5000 \<and>
        (\<forall>k < n. \<not> defined_at e (clock s + 100 * k)) \<and>
        (n < 50 \<longrightarrow> defined_at e t') \<and>
        clock (initChatKit cfg e s) = t')"
proof -
  obtain t' n where w: "wait_for_component e (clock s) 0 = (t', n)"
    by (cases "wait_for_component e (clock s) 0")
  from wait_for_component_from_zero [OF w]
  have "n \<le> 50" "t' = clock s + 100 * n" "\<forall>k < n. \<not> defined_at e (clock s + 100 * k)"
    "n < 50 \<longrightarrow> defined_at e t'"
    by (auto simp add: maxAttempts_def)
  moreover have "clock (initChatKit cfg e s) = t'"
    by (simp add: initChatKit_clock w)
  ultimately show ?thesis
    by (simp add: w maxAttempts_def)
qed

theorem polling_loop_bounded_witness:
  "wait_for_component (env_of (\<lambda>t. 250 \<le> t) (NetworkError ''offline'')) (clock page0) 0 = (300, 3) \<and>
   \<not> defined_at (env_of (\<lambda>t. 250 \<le> t) (NetworkError ''offline'')) 200 \<and>
   defined_at (env_of (\<lambda>t. 250 \<le> t) (NetworkError ''offline'')) 300 \<and>
   clock (initChatKit cfg0 (env_of (\<lambda>t. 250 \<le> t) (NetworkError ''offline'')) page0) = 300"
  using polling_loop_bounded [where e = "env_of (\<lambda>t. 250 \<le> t) (NetworkError ''offline'')"
      and s = page0 and cfg = cfg0]
  by (simp add: wait_for_component.simps env_of_def page0_def maxAttempts_def)

section \<open>The component never registers\<close>

text \<open>
  C3. When the component is unregistered at every check of the polling loop (the
  initial one and the 50 that follow a wait), \<open>initChatKit\<close> issues no request: the
  request log is unchanged, after timers adding up to 5000.
\<close>

theorem no_request_when_never_registered:
  assumes "\<forall>k \<le> 50. \<not> defined_at e (clock s + 100 * k)"
  shows "requests (initChatKit cfg e s) = requests s \<and>
         clock (initChatKit cfg e s) = clock s + 5000"
  using assms by (simp add: initChatKit_timeout maxAttempts_def)

theorem no_request_when_never_registered_witness:
  "\<not> defined_at (env_of (\<lambda>t. False) (NetworkError ''offline'')) (clock page0 + 100 * 50) \<and>
   requests (initChatKit cfg0 (env_of (\<lambda>t. False) (NetworkError ''offline'')) page0) = [] \<and>
   clock (initChatKit cfg0 (env_of (\<lambda>t. False) (NetworkError ''offline'')) page0) = 5000"
proof -
  have h: "\<forall>k \<le> 50. \<not> defined_at (env_of (\<lambda>t. False) (NetworkError ''offline'')) (clock page0 + 100 * k)"
    by (simp add: env_of_def)
  from no_request_when_never_registered [OF h, where cfg = cfg0] show ?thesis
    by (simp add: page0_def env_of_def)
qed

text \<open>
  C1. On the page \<open>page0\<close>, whose retry control is displayed, with a component that
  never registers: \<open>initChatKit\<close> shows the overlay with the not-loaded message, issues
  no request, mounts nothing, and leaves the retry control exactly as it was, still
  displayed. \<open>showError\<close> is called without its second argument, so \<open>retryable\<close> takes
  its default \<open>true\<close> and the branch that hides the control is not taken.
\<close>

theorem timeout_error_keeps_retry_control:
  "errorOverlay (initChatKit cfg0 (env_of (\<lambda>t. False) (NetworkError ''offline'')) page0) = Some ''flex'' \<and>
   errorMessage (initChatKit cfg0 (env_of (\<lambda>t. False) (NetworkError ''offline'')) page0) =
     Some ''ChatKit component not loaded. Please refresh the page.'' \<and>
   retryButton (initChatKit cfg0 (env_of (\<lambda>t. False) (NetworkError ''offline'')) page0) =
     Some \<lparr> display = ''inline-block'', onclick = None \<rparr> \<and>
   retryButton (showError ''ChatKit component not loaded. Please refresh the page.'' False page0) =
     Some \<lparr> display = ''none'', onclick = None \<rparr> \<and>
   requests (initChatKit cfg0 (env_of (\<lambda>t. False) (NetworkError ''offline'')) page0) = [] \<and>
   chatkitContainer (initChatKit cfg0 (env_of (\<lambda>t. False) (NetworkError ''offline'')) page0) =
     Some [Other ''Loading'']"
proof -
  have h: "\<forall>k \<le> maxAttempts. \<not> defined_at (env_of (\<lambda>t. False) (NetworkError ''offline'')) (clock page0 + 100 * k)"
    by (simp add: env_of_def)
  show ?thesis
    unfolding initChatKit_timeout [OF h] by (simp add: page0_def)
qed

section \<open>Outcomes of session creation\<close>

lemma createSession_returns_iff:
  "fst (createSession cfg e s) = Inr session \<longleftrightarrow>
   (\<exists>r. fetch_result e (length (requests s)) = Response r \<and> ok r \<and>
        body r = Parsed session \<and> session \<noteq> JNull)"
  by (auto simp add: createSession_def Let_def
      split: fetch_outcome.splits body.splits sum.splits option.splits if_splits)






section \<open>A failed session\<close>



section \<open>A created session\<close>

text \<open>
  C4. When the component registers within the polling ceiling and the backend answers
  with a success status and a parsed, non-null session, \<open>initChatKit\<close> creates a new
  widget element whose session token is the session's \<open>client_secret\<close> field (so not
  its \<open>id\<close> field, when the two differ), keeps it in \<open>chatkitElement\<close>, and makes it
  the only child of the container when the page has one.
\<close>

theorem mounted_widget_uses_client_secret:
  assumes "k \<le> 50" and "defined_at e (clock s + 100 * k)"
    and "fetch_result e (length (requests s)) = Response r" and "ok r"
    and "body r = Parsed session" and "session \<noteq> JNull"
  shows "chatkitElement (initChatKit cfg e s) = Some (length (heap s)) \<and>
         length (heap (initChatKit cfg e s)) = length (heap s) + 1 \<and>
         sessionToken (heap (initChatKit cfg e s) ! length (heap s)) =
           get_field session ''client_secret'' \<and>
         (chatkitContainer s \<noteq> None \<longrightarrow>
            chatkitContainer (initChatKit cfg e s) = Some [Widget (length (heap s))]) \<and>
         (get_field session ''id'' \<noteq> get_field session ''client_secret'' \<longrightarrow>
            sessionToken (heap (initChatKit cfg e s) ! length (heap s)) \<noteq> get_field session ''id'')"
proof -
  have reg: "defined_at e (fst (wait_for_component e (clock s) 0))"
    using assms(1,2) by (auto intro: registered_at_exit simp add: maxAttempts_def)
  have ret: "fst (createSession cfg e s) = Inr session"
    using assms(3-6) by (simp add: createSession_returns_iff)
  show ?thesis
    by (auto simp add: initChatKit_session_created [OF reg ret] Let_def updateChatkitTheme_def
        nth_append split: option.split)
qed

theorem mounted_widget_uses_client_secret_witness:
  "sessionToken
     (heap (initChatKit cfg0
        (env_of (\<lambda>t. 250 \<le> t)
           (Response \<lparr> status = 200,
                       body = Parsed (JObj [(''id'', JStr ''sess_1''),
                                            (''client_secret'', JStr ''cs_1'')]) \<rparr>))
        page0) ! 0) = Some (JStr ''cs_1'') \<and>
   chatkitContainer (initChatKit cfg0
        (env_of (\<lambda>t. 250 \<le> t)
           (Response \<lparr> status = 200,
                       body = Parsed (JObj [(''id'', JStr ''sess_1''),
                                            (''client_secret'', JStr ''cs_1'')]) \<rparr>))
        page0) = Some [Widget 0]"
  using mounted_widget_uses_client_secret [where k = 3 and s = page0 and cfg = cfg0
      and e = "env_of (\<lambda>t. 250 \<le> t)
           (Response \<lparr> status = 200,
                       body = Parsed (JObj [(''id'', JStr ''sess_1''),
                                            (''client_secret'', JStr ''cs_1'')]) \<rparr>)"
      and r = "\<lparr> status = 200,
                 body = Parsed (JObj [(''id'', JStr ''sess_1''),
                                      (''client_secret'', JStr ''cs_1'')]) \<rparr>"
      and session = "JObj [(''id'', JStr ''sess_1''), (''client_secret'', JStr ''cs_1'')]"]
  by (simp add: env_of_def page0_def ok_def)

section \<open>Mounting replaces\<close>








section \<open>The message shown for a rejected session\<close>




end
